theory Spec2Isabelle
  imports Main
begin

section \<open>C strings\<close>

text \<open>
  A \<open>char list\<close> stands for the bytes found in memory from some address on. The C string
  stored there is the bytes before the first NUL; reading past the end of the list reads
  the terminator, so the literal \<open>''abc''\<close> is the C literal \<^verbatim>\<open>"abc"\<close>.
\<close>

definition NUL :: char where
  "NUL = CHR 0x00"

definition c_str :: "char list \<Rightarrow> string" where
  "c_str bytes = takeWhile (\<lambda>c. c \<noteq> NUL) bytes"

text \<open>
  \<^verbatim>\<open>strcmp\<close> of the C library: the bytes are compared as unsigned chars up to and
  including the first NUL, and the result is the difference at the first mismatch.
\<close>

fun strcmp :: "char list \<Rightarrow> char list \<Rightarrow> int" where
  "strcmp (x # xs) (y # ys) =
     (if x \<noteq> y then of_char x - of_char y
      else if x = NUL then 0
      else strcmp xs ys)"
| "strcmp (x # xs) [] = of_char x"
| "strcmp [] (y # ys) = - of_char y"
| "strcmp [] [] = 0"

text \<open>
  \<^verbatim>\<open>strlcpy(dst, src, n)\<close>: at most \<open>n - 1\<close> bytes of the string at \<open>src\<close> are written
  to \<open>dst\<close>, followed by a NUL; the bytes of \<open>dst\<close> behind that stay what they were.
  Nothing is written when \<open>n = 0\<close>.
\<close>

definition strlcpy :: "char list \<Rightarrow> char list \<Rightarrow> nat \<Rightarrow> char list" where
  "strlcpy dst src n =
     (if n = 0 then dst
      else (let k = min (length (c_str src)) (n - 1)
            in take k (c_str src) @ NUL # drop (Suc k) dst))"


section \<open>The host kernel\<close>

text \<open>
  Pointers (credential, vnode, label, name, kmod info) are addresses; \<open>NULL\<close> is address 0.
\<close>

type_synonym addr = nat

definition NULL :: addr where
  "NULL = 0"

text \<open>
  What the kernel supplies and \<^verbatim>\<open>tsan_utils.c\<close> only uses: the macros \<^verbatim>\<open>EPERM\<close>,
  \<^verbatim>\<open>MAXCOMLEN\<close> and \<^verbatim>\<open>MPC_LOADTIME_FLAG_UNLOADOK\<close> of its headers (values 1, 16 and 2 on
  Darwin), and the state the KPI calls read:
  \<^item> \<open>v_name h vp\<close> is the name pointer of the vnode at \<open>vp\<close>, \<open>NULL\<close> when it has none;
  \<^item> \<open>mem h a\<close> is the bytes stored from address \<open>a\<close> on;
  \<^item> \<open>self_name h\<close> is the name of the current process;
  \<^item> \<open>frame h\<close> is the bytes the array \<^verbatim>\<open>procName\<close> holds before it is written
    (it is declared without an initialiser).
\<close>

record host =
  EPERM :: int
  MAXCOMLEN :: nat
  MPC_LOADTIME_FLAG_UNLOADOK :: int
  v_name :: "addr \<Rightarrow> addr"
  mem :: "addr \<Rightarrow> char list"
  self_name :: "char list"
  frame :: "char list"

text \<open>The KPI calls made by the hook are recorded, in order, in a trace.\<close>

datatype kcall = Getname addr | Selfname nat | Putname addr

text \<open>
  \<^verbatim>\<open>vnode_getname(vp)\<close> returns the name pointer of the vnode (taking a reference on it),
  \<^verbatim>\<open>vnode_putname(name)\<close> gives such a reference back, and \<^verbatim>\<open>proc_selfname(buf, n)\<close>
  copies the name of the current process into \<open>buf\<close> with \<^verbatim>\<open>strlcpy\<close>. The three
  are the kernel's; each is taken to return to its caller, for every argument.
\<close>

definition vnode_getname :: "host \<Rightarrow> addr \<Rightarrow> kcall list \<Rightarrow> addr \<times> kcall list" where
  "vnode_getname h vp tr = (v_name h vp, tr @ [Getname vp])"

definition vnode_putname :: "addr \<Rightarrow> kcall list \<Rightarrow> kcall list" where
  "vnode_putname name tr = tr @ [Putname name]"

definition proc_selfname ::
    "host \<Rightarrow> char list \<Rightarrow> nat \<Rightarrow> kcall list \<Rightarrow> char list \<times> kcall list" where
  "proc_selfname h buf n tr = (strlcpy buf (self_name h) n, tr @ [Selfname n])"

text \<open>The pointers handed to \<^verbatim>\<open>vnode_putname\<close> and the vnodes asked for their name.\<close>

fun released :: "kcall list \<Rightarrow> addr list" where
  "released [] = []"
| "released (Putname p # tr) = p # released tr"
| "released (_ # tr) = released tr"

fun acquired :: "kcall list \<Rightarrow> addr list" where
  "acquired [] = []"
| "acquired (Getname vp # tr) = vp # acquired tr"
| "acquired (_ # tr) = acquired tr"


section \<open>The open hook\<close>

text \<open>
  \<^verbatim>\<open>policy_should_allow_open(cred, vp, label, acc_mode)\<close>. The \<^verbatim>\<open>&&\<close> of the source reads
  the name only behind a non-null pointer. Both exits release \<open>vnodeName\<close>: the one
  inside the inner \<^verbatim>\<open>if\<close>, and the one at the end of the function that every other
  path falls through to.
\<close>

definition policy_should_allow_open ::
    "host \<Rightarrow> addr \<Rightarrow> addr \<Rightarrow> addr \<Rightarrow> int \<Rightarrow> kcall list \<Rightarrow> int \<times> kcall list" where
  "policy_should_allow_open h cred vp label acc_mode tr =
     (let (vnodeName, tr1) = vnode_getname h vp tr in
      if vnodeName \<noteq> NULL \<and> strcmp (mem h vnodeName) ''ourApplicationsFile'' = 0 then
        (let (procName, tr2) = proc_selfname h (frame h) (MAXCOMLEN h + 1) tr1 in
         if strcmp procName ''ourApplication'' \<noteq> 0 then
           (EPERM h, vnode_putname vnodeName tr2)
         else (0, vnode_putname vnodeName tr2))
      else (0, vnode_putname vnodeName tr1))"

text \<open>A vnode is gated when it has a name and the name is \<^verbatim>\<open>ourApplicationsFile\<close>.\<close>

definition gated :: "host \<Rightarrow> addr \<Rightarrow> bool" where
  "gated h vp \<longleftrightarrow>
     v_name h vp \<noteq> NULL \<and> c_str (mem h (v_name h vp)) = ''ourApplicationsFile''"


section \<open>Registration\<close>

text \<open>
  \<^verbatim>\<open>struct mac_policy_ops\<close> is a table of callback slots, one field per hook. It is
  modelled as a map from the field's name to the callback stored there: a field that the
  designated initialiser does not name is zero, which is no entry.
\<close>

type_synonym mpo_hook =
  "host \<Rightarrow> addr \<Rightarrow> addr \<Rightarrow> addr \<Rightarrow> int \<Rightarrow> kcall list \<Rightarrow> int \<times> kcall list"

type_synonym mac_policy_ops = "string \<rightharpoonup> mpo_hook"

definition our_ops :: mac_policy_ops where
  "our_ops = [''mpo_vnode_check_open'' \<mapsto> policy_should_allow_open]"

record mac_policy_conf =
  mpc_name :: string
  mpc_fullname :: string
  mpc_labelnames :: addr
  mpc_labelname_count :: nat
  mpc_ops :: mac_policy_ops
  mpc_loadtime_flags :: int
  mpc_field_off :: addr
  mpc_runtime_flags :: int

definition policy_configuration :: "host \<Rightarrow> mac_policy_conf" where
  "policy_configuration h =
     \<lparr> mpc_name = ''com.demo.protectFileDemo'',
       mpc_fullname = ''Protect File Demo'',
       mpc_labelnames = NULL,
       mpc_labelname_count = 0,
       mpc_ops = our_ops,
       mpc_loadtime_flags = MPC_LOADTIME_FLAG_UNLOADOK h,
       mpc_field_off = NULL,
       mpc_runtime_flags = 0 \<rparr>"

text \<open>The global \<^verbatim>\<open>handle\<close>, initialised to 0.\<close>

type_synonym mac_policy_handle_t = nat

record globals =
  handle :: mac_policy_handle_t

definition globals_init :: globals where
  "globals_init = \<lparr> handle = 0 \<rparr>"

text \<open>
  \<^verbatim>\<open>mac_policy_register(mpc, handlep, xd)\<close> is the kernel's: from the configuration, the
  value now at \<open>handlep\<close> and \<open>xd\<close> it gives a status code and the value it leaves at
  \<open>handlep\<close>.
\<close>

type_synonym registrar =
  "mac_policy_conf \<Rightarrow> mac_policy_handle_t \<Rightarrow> addr \<Rightarrow> int \<times> mac_policy_handle_t"

definition demoKextStart ::
    "registrar \<Rightarrow> host \<Rightarrow> addr \<Rightarrow> addr \<Rightarrow> globals \<Rightarrow> int \<times> globals" where
  "demoKextStart mac_policy_register h ki d g =
     (let (status, hdl) = mac_policy_register (policy_configuration h) (handle g) d
      in (status, g\<lparr>handle := hdl\<rparr>))"


section \<open>A concrete host\<close>

text \<open>
  Darwin's constants; the vnode at address 7 is named \<^verbatim>\<open>ourApplicationsFile\<close>, the one at
  address 8 \<^verbatim>\<open>notes.txt\<close>, every other vnode has no name; the running process is
  \<^verbatim>\<open>otherApp\<close>.
\<close>

definition darwin :: host where
  "darwin =
     \<lparr> EPERM = 1,
       MAXCOMLEN = 16,
       MPC_LOADTIME_FLAG_UNLOADOK = 2,
       v_name = (\<lambda>vp. if vp = 7 then 100 else if vp = 8 then 200 else NULL),
       mem = (\<lambda>a. if a = 100 then ''ourApplicationsFile'' @ [NUL] @ ''junk''
                   else if a = 200 then ''notes.txt'' @ [NUL]
                   else []),
       self_name = ''otherApp'' @ [NUL],
       frame = ''0123456789abcdefg'' \<rparr>"


section \<open>String lemmas\<close>

lemma c_str_no_NUL: "NUL \<notin> set s \<Longrightarrow> c_str s = s"
  unfolding c_str_def by (induction s) auto

lemma of_char_NUL_iff: "(of_char x :: int) = 0 \<longleftrightarrow> x = NUL"
proof -
  have "(of_char x :: int) = of_char NUL \<longleftrightarrow> x = NUL"
    by (rule of_char_eq_iff)
  then show ?thesis by (simp add: NUL_def)
qed

lemma strcmp_eq_0_iff: "strcmp a b = 0 \<longleftrightarrow> c_str a = c_str b"
proof (induction a b rule: strcmp.induct)
  case (1 x xs y ys)
  then show ?case by (auto simp: c_str_def)
next
  case (2 x xs)
  then show ?case by (simp add: c_str_def of_char_NUL_iff)
next
  case (3 y ys)
  then show ?case by (auto simp: c_str_def of_char_NUL_iff)
next
  case 4
  then show ?case by simp
qed

lemma c_str_strlcpy: "0 < n \<Longrightarrow> c_str (strlcpy dst src n) = take (n - 1) (c_str src)"
proof -
  assume n: "0 < n"
  let ?k = "min (length (c_str src)) (n - 1)"
  have no: "\<And>x. x \<in> set (take ?k (c_str src)) \<Longrightarrow> x \<noteq> NUL"
    unfolding c_str_def by (auto dest!: in_set_takeD set_takeWhileD)
  have "c_str (take ?k (c_str src) @ NUL # drop (Suc ?k) dst) = take ?k (c_str src)"
    unfolding c_str_def [of "_ @ _"] using no by (simp add: takeWhile_append2)
  moreover have "take ?k (c_str src) = take (n - 1) (c_str src)"
    by (simp add: min_def)
  ultimately show ?thesis using n by (simp add: strlcpy_def Let_def)
qed

lemma take_eq_shorter: "length lit < k \<Longrightarrow> take k s = lit \<longleftrightarrow> s = lit"
proof
  assume k: "length lit < k" and t: "take k s = lit"
  from t have "min (length s) k = length lit" by (metis length_take)
  with k have "length s \<le> k" by (simp add: min_def split: if_splits)
  with t show "s = lit" by simp
next
  assume "length lit < k" and "s = lit"
  then show "take k s = lit" by simp
qed

lemma take_eq_not_longer: "length s \<le> length lit \<Longrightarrow> take k s = lit \<Longrightarrow> s = lit"
proof -
  assume l: "length s \<le> length lit" and t: "take k s = lit"
  from t have "min (length s) k = length lit" by (metis length_take)
  with l have "length s \<le> k" by (simp add: min_def split: if_splits)
  with t show "s = lit" by simp
qed

lemma released_append: "released (tr @ tr') = released tr @ released tr'"
  by (induction tr rule: released.induct) simp_all

lemma acquired_append: "acquired (tr @ tr') = acquired tr @ acquired tr'"
  by (induction tr rule: acquired.induct) simp_all


section \<open>What the hook computes\<close>

text \<open>
  For a gated vnode the process name is read through a buffer of \<open>MAXCOMLEN + 1\<close> bytes,
  so its first \<open>MAXCOMLEN\<close> bytes are what is compared.
\<close>

lemma c_str_literals:
  "c_str ''ourApplicationsFile'' = ''ourApplicationsFile''"
  "c_str ''ourApplication'' = ''ourApplication''"
  by (simp_all add: c_str_def NUL_def)

lemma policy_unfold:
  "policy_should_allow_open h cred vp label acc_mode tr =
     (if gated h vp then
        (if take (MAXCOMLEN h) (c_str (self_name h)) \<noteq> ''ourApplication'' then EPERM h else 0,
         tr @ [Getname vp, Selfname (MAXCOMLEN h + 1), Putname (v_name h vp)])
      else (0, tr @ [Getname vp, Putname (v_name h vp)]))"
  by (simp add: policy_should_allow_open_def vnode_getname_def vnode_putname_def
      proc_selfname_def gated_def strcmp_eq_0_iff c_str_strlcpy c_str_literals)


section \<open>The decision\<close>

text \<open>
  C1. When the vnode's name is \<^verbatim>\<open>ourApplicationsFile\<close> and the name of the current
  process is not \<^verbatim>\<open>ourApplication\<close>, the hook returns \<^verbatim>\<open>EPERM\<close>. The process name is
  compared through the \<open>MAXCOMLEN + 1\<close> byte buffer, which has room for one byte more
  than \<^verbatim>\<open>ourApplication\<close> on every host with \<open>14 < MAXCOMLEN\<close> (Darwin: 16).
\<close>

theorem deny_other_process:
  assumes "v_name h vp \<noteq> NULL"
    and "c_str (mem h (v_name h vp)) = ''ourApplicationsFile''"
    and "c_str (self_name h) \<noteq> ''ourApplication''"
    and "14 < MAXCOMLEN h"
  shows "fst (policy_should_allow_open h cred vp label acc_mode tr) = EPERM h"
proof -
  from assms(4) have "length ''ourApplication'' < MAXCOMLEN h" by simp
  then have "take (MAXCOMLEN h) (c_str (self_name h)) \<noteq> ''ourApplication''"
    using assms(3) by (simp only: take_eq_shorter) simp
  moreover have "gated h vp" using assms(1,2) by (simp add: gated_def)
  ultimately show ?thesis by (simp add: policy_unfold)
qed

theorem deny_other_process_witness:
  "v_name darwin 7 \<noteq> NULL
   \<and> c_str (mem darwin (v_name darwin 7)) = ''ourApplicationsFile''
   \<and> c_str (self_name darwin) \<noteq> ''ourApplication''
   \<and> 14 < MAXCOMLEN darwin
   \<and> fst (policy_should_allow_open darwin 1 7 2 3 []) = 1"
proof -
  have a: "v_name darwin 7 \<noteq> NULL"
    by (simp add: darwin_def NULL_def)
  have b: "c_str (mem darwin (v_name darwin 7)) = ''ourApplicationsFile''"
    by (simp add: darwin_def c_str_def NUL_def)
  have c: "c_str (self_name darwin) \<noteq> ''ourApplication''"
    by (simp add: darwin_def c_str_def NUL_def)
  have d: "14 < MAXCOMLEN darwin"
    by (simp add: darwin_def)
  from deny_other_process [OF a b c d, of 1 2 3 "[]"] a b c d
  show ?thesis by (simp add: darwin_def)
qed

text \<open>
  C2. When the vnode has a name and it is not \<^verbatim>\<open>ourApplicationsFile\<close>, the hook returns
  0, whatever the process name and the access mode are.
\<close>

theorem allow_other_file:
  assumes "v_name h vp \<noteq> NULL"
    and "c_str (mem h (v_name h vp)) \<noteq> ''ourApplicationsFile''"
  shows "fst (policy_should_allow_open h cred vp label acc_mode tr) = 0"
  using assms by (simp add: policy_unfold gated_def)

theorem allow_other_file_witness:
  "v_name darwin 8 \<noteq> NULL
   \<and> c_str (mem darwin (v_name darwin 8)) \<noteq> ''ourApplicationsFile''
   \<and> fst (policy_should_allow_open darwin 1 8 2 3 []) = 0"
proof -
  have a: "v_name darwin 8 \<noteq> NULL"
    by (simp add: darwin_def NULL_def)
  have b: "c_str (mem darwin (v_name darwin 8)) \<noteq> ''ourApplicationsFile''"
    by (simp add: darwin_def c_str_def NUL_def)
  from allow_other_file [OF a b, of 1 2 3 "[]"] a b
  show ?thesis by simp
qed

text \<open>
  C3. When the vnode's name is \<^verbatim>\<open>ourApplicationsFile\<close> and the current process is named
  \<^verbatim>\<open>ourApplication\<close>, the hook returns 0. The buffer has to hold the 14 bytes of the
  name: \<open>14 \<le> MAXCOMLEN\<close>.
\<close>

theorem allow_our_application:
  assumes "v_name h vp \<noteq> NULL"
    and "c_str (mem h (v_name h vp)) = ''ourApplicationsFile''"
    and "c_str (self_name h) = ''ourApplication''"
    and "14 \<le> MAXCOMLEN h"
  shows "fst (policy_should_allow_open h cred vp label acc_mode tr) = 0"
  using assms by (simp add: policy_unfold gated_def)

theorem allow_our_application_witness:
  "v_name (darwin\<lparr>self_name := ''ourApplication''\<rparr>) 7 \<noteq> NULL
   \<and> c_str (mem (darwin\<lparr>self_name := ''ourApplication''\<rparr>)
        (v_name (darwin\<lparr>self_name := ''ourApplication''\<rparr>) 7)) = ''ourApplicationsFile''
   \<and> c_str (self_name (darwin\<lparr>self_name := ''ourApplication''\<rparr>)) = ''ourApplication''
   \<and> 14 \<le> MAXCOMLEN (darwin\<lparr>self_name := ''ourApplication''\<rparr>)
   \<and> fst (policy_should_allow_open (darwin\<lparr>self_name := ''ourApplication''\<rparr>) 1 7 2 3 []) = 0"
proof -
  let ?h = "darwin\<lparr>self_name := ''ourApplication''\<rparr>"
  have a: "v_name ?h 7 \<noteq> NULL"
    by (simp add: darwin_def NULL_def)
  have b: "c_str (mem ?h (v_name ?h 7)) = ''ourApplicationsFile''"
    by (simp add: darwin_def c_str_def NUL_def)
  have c: "c_str (self_name ?h) = ''ourApplication''"
    by (simp add: c_str_def NUL_def)
  have d: "14 \<le> MAXCOMLEN ?h"
    by (simp add: darwin_def)
  from allow_our_application [OF a b c d, of 1 2 3 "[]"] a b c d
  show ?thesis by simp
qed

text \<open>
  C4. When \<^verbatim>\<open>vnode_getname\<close> returns a null pointer, the hook returns 0, whatever the
  process name and the access mode are.
\<close>

theorem allow_without_name:
  assumes "v_name h vp = NULL"
  shows "fst (policy_should_allow_open h cred vp label acc_mode tr) = 0"
  using assms by (simp add: policy_unfold gated_def)

theorem allow_without_name_witness:
  "v_name darwin 9 = NULL \<and> fst (policy_should_allow_open darwin 1 9 2 3 []) = 0"
proof -
  have a: "v_name darwin 9 = NULL"
    by (simp add: darwin_def)
  from allow_without_name [OF a, of 1 2 3 "[]"] a
  show ?thesis by simp
qed

text \<open>
  C5. The comparison of the process name is exact and case-sensitive. For a vnode named
  \<^verbatim>\<open>ourApplicationsFile\<close> the hook returns 0 exactly when the bytes \<^verbatim>\<open>proc_selfname\<close>
  delivers (the first \<open>MAXCOMLEN\<close> bytes of the process name) are \<^verbatim>\<open>ourApplication\<close>,
  and \<^verbatim>\<open>EPERM\<close> otherwise. So every process name of at most 14 bytes other than
  \<^verbatim>\<open>ourApplication\<close> gets \<^verbatim>\<open>EPERM\<close>, whatever \<open>MAXCOMLEN\<close> is: among them every
  name that differs from it in the case of some letter only, such as \<^verbatim>\<open>OurApplication\<close>.
\<close>

theorem process_name_compared_exactly:
  assumes "v_name h vp \<noteq> NULL"
    and "c_str (mem h (v_name h vp)) = ''ourApplicationsFile''"
  shows "fst (policy_should_allow_open h cred vp label acc_mode tr)
           = (if take (MAXCOMLEN h) (c_str (self_name h)) = ''ourApplication'' then 0
              else EPERM h)
   \<and> (length (c_str (self_name h)) \<le> 14 \<and> c_str (self_name h) \<noteq> ''ourApplication''
        \<longrightarrow> fst (policy_should_allow_open h cred vp label acc_mode tr) = EPERM h)
   \<and> (c_str (self_name h) = ''OurApplication''
        \<longrightarrow> fst (policy_should_allow_open h cred vp label acc_mode tr) = EPERM h)"
proof -
  let ?r = "fst (policy_should_allow_open h cred vp label acc_mode tr)"
  let ?s = "c_str (self_name h)"
  have g: "gated h vp" using assms by (simp add: gated_def)
  then have exact:
    "?r = (if take (MAXCOMLEN h) ?s = ''ourApplication'' then 0 else EPERM h)"
    by (simp add: policy_unfold)
  have short: "?r = EPERM h" if l: "length ?s \<le> 14" and n: "?s \<noteq> ''ourApplication''"
  proof -
    from l have "length ?s \<le> length ''ourApplication''" by simp
    then have "take (MAXCOMLEN h) ?s \<noteq> ''ourApplication''"
      using n take_eq_not_longer by blast
    with exact show ?thesis by simp
  qed
  have capital: "?r = EPERM h" if c: "?s = ''OurApplication''"
  proof (rule short)
    from c show "length ?s \<le> 14" by simp
    from c show "?s \<noteq> ''ourApplication''" by simp
  qed
  from exact short capital show ?thesis by blast
qed

theorem process_name_compared_exactly_witness:
  "v_name (darwin\<lparr>self_name := ''OurApplication''\<rparr>) 7 \<noteq> NULL
   \<and> c_str (mem (darwin\<lparr>self_name := ''OurApplication''\<rparr>)
        (v_name (darwin\<lparr>self_name := ''OurApplication''\<rparr>) 7)) = ''ourApplicationsFile''
   \<and> c_str (self_name (darwin\<lparr>self_name := ''OurApplication''\<rparr>)) = ''OurApplication''
   \<and> length (c_str (self_name (darwin\<lparr>self_name := ''OurApplication''\<rparr>))) \<le> 14
   \<and> c_str (self_name (darwin\<lparr>self_name := ''OurApplication''\<rparr>)) \<noteq> ''ourApplication''
   \<and> fst (policy_should_allow_open (darwin\<lparr>self_name := ''OurApplication''\<rparr>) 1 7 2 3 []) = 1
   \<and> fst (policy_should_allow_open (darwin\<lparr>self_name := ''ourAPPLICATION''\<rparr>) 1 7 2 3 []) = 1
   \<and> fst (policy_should_allow_open (darwin\<lparr>self_name := ''ourApplication''\<rparr>) 1 7 2 3 []) = 0"
proof -
  let ?h = "darwin\<lparr>self_name := ''OurApplication''\<rparr>"
  let ?u = "darwin\<lparr>self_name := ''ourAPPLICATION''\<rparr>"
  let ?o = "darwin\<lparr>self_name := ''ourApplication''\<rparr>"
  have a: "v_name ?h 7 \<noteq> NULL" "v_name ?u 7 \<noteq> NULL" "v_name ?o 7 \<noteq> NULL"
    by (simp_all add: darwin_def NULL_def)
  have b: "c_str (mem ?h (v_name ?h 7)) = ''ourApplicationsFile''"
    "c_str (mem ?u (v_name ?u 7)) = ''ourApplicationsFile''"
    "c_str (mem ?o (v_name ?o 7)) = ''ourApplicationsFile''"
    by (simp_all add: darwin_def c_str_def NUL_def)
  have c: "c_str (self_name ?h) = ''OurApplication''"
    by (simp add: c_str_def NUL_def)
  have d: "length (c_str (self_name ?h)) \<le> 14"
    "c_str (self_name ?h) \<noteq> ''ourApplication''"
    by (simp_all add: c_str_def NUL_def)
  have e: "length (c_str (self_name ?u)) \<le> 14 \<and> c_str (self_name ?u) \<noteq> ''ourApplication''"
    by (simp add: c_str_def NUL_def)
  have m: "EPERM ?h = 1" "EPERM ?u = 1" "MAXCOMLEN ?o = 16"
    by (simp_all add: darwin_def)
  have o: "c_str (self_name ?o) = ''ourApplication''"
    by (simp add: c_str_def NUL_def)
  from process_name_compared_exactly [OF a(1) b(1), of 1 2 3 "[]"] c m(1)
  have 1: "fst (policy_should_allow_open ?h 1 7 2 3 []) = 1" by simp
  from process_name_compared_exactly [OF a(2) b(2), of 1 2 3 "[]"] e m(2)
  have 2: "fst (policy_should_allow_open ?u 1 7 2 3 []) = 1" by simp
  from process_name_compared_exactly [OF a(3) b(3), of 1 2 3 "[]"]
  have 3: "fst (policy_should_allow_open ?o 1 7 2 3 []) = 0"
    by (simp only: o m(3)) simp
  from a(1) b(1) c d 1 2 3 show ?thesis by blast
qed

text \<open>
  C6. The access mode is never inspected: with everything else fixed, any two values of
  \<open>acc_mode\<close> give the same return value (and the same KPI calls).
\<close>

theorem acc_mode_irrelevant:
  "policy_should_allow_open h cred vp label acc_mode tr =
   policy_should_allow_open h cred vp label acc_mode' tr"
  by (simp add: policy_unfold)

text \<open>
  C8. The return value is 0 or \<^verbatim>\<open>EPERM\<close> and nothing else; it is 0 whenever the name
  lookup gives a null pointer or the name is not the gated one.
\<close>

theorem status_is_0_or_EPERM:
  "fst (policy_should_allow_open h cred vp label acc_mode tr) \<in> {0, EPERM h}
   \<and> (v_name h vp = NULL \<or> c_str (mem h (v_name h vp)) \<noteq> ''ourApplicationsFile''
        \<longrightarrow> fst (policy_should_allow_open h cred vp label acc_mode tr) = 0)"
  by (auto simp: policy_unfold gated_def)

theorem status_is_0_or_EPERM_witness:
  "(v_name darwin 8 = NULL \<or> c_str (mem darwin (v_name darwin 8)) \<noteq> ''ourApplicationsFile'')
   \<and> fst (policy_should_allow_open darwin 1 8 2 3 []) \<in> {0, EPERM darwin}
   \<and> fst (policy_should_allow_open darwin 1 8 2 3 []) = 0"
proof -
  have a: "v_name darwin 8 = NULL
      \<or> c_str (mem darwin (v_name darwin 8)) \<noteq> ''ourApplicationsFile''"
    by (simp add: darwin_def c_str_def NUL_def)
  from status_is_0_or_EPERM [of darwin 1 8 2 3 "[]"] a
  show ?thesis by blast
qed


section \<open>The borrowed name\<close>

text \<open>
  C7. On every path the hook asks once for the name of \<open>vp\<close> and hands the pointer it got
  to \<^verbatim>\<open>vnode_putname\<close> exactly once, as its last call before it returns.
\<close>

theorem putname_exactly_once:
  "released (snd (policy_should_allow_open h cred vp label acc_mode tr))
     = released tr @ [v_name h vp]
   \<and> acquired (snd (policy_should_allow_open h cred vp label acc_mode tr))
     = acquired tr @ [vp]
   \<and> last (snd (policy_should_allow_open h cred vp label acc_mode tr))
     = Putname (v_name h vp)"
  by (simp add: policy_unfold released_append acquired_append)

text \<open>
  C10. When \<^verbatim>\<open>vnode_getname\<close> returns a null pointer, the hook still calls
  \<^verbatim>\<open>vnode_putname\<close>, on that null pointer, and returns 0: the calls it makes are the
  lookup and the release, in this order.
\<close>

theorem putname_on_null:
  assumes "v_name h vp = NULL"
  shows "policy_should_allow_open h cred vp label acc_mode tr
           = (0, tr @ [Getname vp, Putname NULL])"
  using assms by (simp add: policy_unfold gated_def)

theorem putname_on_null_witness:
  "v_name darwin 9 = NULL
   \<and> policy_should_allow_open darwin 1 9 2 3 [] = (0, [Getname 9, Putname NULL])"
proof -
  have a: "v_name darwin 9 = NULL"
    by (simp add: darwin_def)
  from putname_on_null [OF a, of 1 2 3 "[]"] a
  show ?thesis by simp
qed


section \<open>The start entry point\<close>

text \<open>
  C9. \<^verbatim>\<open>demoKextStart\<close> hands \<^verbatim>\<open>policy_configuration\<close> to \<^verbatim>\<open>mac_policy_register\<close>,
  returns the status code that call returns and leaves in \<^verbatim>\<open>handle\<close> what the call
  stored there; the operations table of the configuration has one populated slot,
  \<^verbatim>\<open>mpo_vnode_check_open\<close>, holding the open hook.
\<close>

theorem demoKextStart_registers:
  "demoKextStart reg h ki d g =
     (fst (reg (policy_configuration h) (handle g) d),
      g\<lparr>handle := snd (reg (policy_configuration h) (handle g) d)\<rparr>)
   \<and> dom (mpc_ops (policy_configuration h)) = {''mpo_vnode_check_open''}
   \<and> mpc_ops (policy_configuration h) ''mpo_vnode_check_open'' = Some policy_should_allow_open"
  by (simp add: demoKextStart_def policy_configuration_def our_ops_def split_beta)

end
